theory Spec2Isabelle
  imports Complex_Main "HOL-Library.Char_ord" "HOL-Library.List_Lexorder"
begin

section \<open>Data model\<close>

text \<open>
  The embedding follows \<^verbatim>\<open>moveit_core/collision_detection/src/fcl/collision_common.cpp\<close>.
  Body names are \<^typ>\<open>string\<close>s; \<open><\<close> on them is the lexicographic order on bytes
  (\<open>List_Lexorder\<close> over \<open>Char_ord\<close>), which is what \<^verbatim>\<open>std::string::operator<\<close>
  computes. Values of type \<^verbatim>\<open>std::size_t\<close> are natural numbers: the two
  subtractions the callback performs on them are guarded by the comparison in front of
  them, and the counter is incremented once per stored contact. Values of type
  \<^verbatim>\<open>int\<close> are integers. Coordinates are copied and never computed with; they are
  reals. Diagnostic output (\<^verbatim>\<open>ROS_INFO\<close>) is not part of the callback's result and
  is left out.
\<close>

text \<open>
  \<^verbatim>\<open>BodyTypes::Type\<close> is declared outside this file, which names
  \<^verbatim>\<open>ROBOT_LINK\<close> and \<^verbatim>\<open>ROBOT_ATTACHED\<close>; \<open>WORLD_OBJECT\<close> is every other body.
\<close>

datatype BodyType = ROBOT_LINK | ROBOT_ATTACHED | WORLD_OBJECT

text \<open>
  \<^verbatim>\<open>CollisionGeometryData\<close>: the user data attached to a collision geometry. The
  fields read by this file are the body type, the name returned by \<^verbatim>\<open>getID()\<close>
  and, for an attached body, \<^verbatim>\<open>ptr.ab->touch_links_\<close>.
\<close>

record CollisionGeometryData =
  cgd_type :: BodyType
  getID :: string
  touch_links :: "string set"

text \<open>
  A collision object as the callback sees it: an opaque geometry (whatever the narrow
  phase looks at, of type \<open>'g\<close>) and its user data.
\<close>

record 'g CollisionObject =
  geometry :: 'g
  getUserData :: CollisionGeometryData

type_synonym vec3 = "real \<times> real \<times> real"

text \<open>\<^verbatim>\<open>fcl::Contact\<close>, a raw contact of the narrow phase.\<close>

record 'g fcl_Contact =
  fc_o1 :: "'g CollisionObject"
  fc_o2 :: "'g CollisionObject"
  fc_pos :: vec3
  fc_normal :: vec3
  penetration_depth :: real

text \<open>\<^verbatim>\<open>collision_detection::Contact\<close>, a contact as stored in the result.\<close>

record Contact =
  pos :: vec3
  normal :: vec3
  depth :: real
  body_name_1 :: string
  body_type_1 :: BodyType
  body_name_2 :: string
  body_type_2 :: BodyType

text \<open>
  \<^verbatim>\<open>DecideContactFn\<close> is declared outside this file. The callback tests whether one
  is set (\<^verbatim>\<open>if (dcf)\<close>) and calls it on its local contact \<^verbatim>\<open>c\<close>, which is not
  constant and is stored afterwards: a decider returns its verdict and the contact as
  it leaves it.
\<close>

type_synonym DecideContactFn = "Contact \<Rightarrow> bool \<times> Contact"

text \<open>
  \<^verbatim>\<open>AllowedCollision::Type\<close>: the callback tests for \<^verbatim>\<open>ALWAYS\<close> and
  \<^verbatim>\<open>CONDITIONAL\<close>; \<open>NEVER\<close> is any other value of an entry.
\<close>

datatype AllowedCollisionType = NEVER | ALWAYS | CONDITIONAL

text \<open>
  The allowed collision matrix is declared outside this file. The callback uses its two
  lookups: \<^verbatim>\<open>getAllowedCollision(name1, name2, type)\<close>, which reports whether an
  entry exists and its type, and \<^verbatim>\<open>getAllowedCollision(name1, name2, fn)\<close>, which
  fills in the decider of a conditional entry (and leaves it empty when there is none).
\<close>

record AllowedCollisionMatrix =
  getAllowedCollisionType :: "string \<Rightarrow> string \<Rightarrow> AllowedCollisionType option"
  getAllowedCollisionFn :: "string \<Rightarrow> string \<Rightarrow> DecideContactFn option"

record CollisionRequest =
  req_contacts :: bool
  max_contacts :: nat
  max_contacts_per_pair :: nat
  verbose :: bool

type_synonym ContactMap = "string \<times> string \<rightharpoonup> Contact list"

record CollisionResult =
  collision :: bool
  contact_count :: nat
  contacts :: ContactMap

text \<open>
  \<^verbatim>\<open>CollisionData\<close>: the fields \<^verbatim>\<open>req_\<close>, \<^verbatim>\<open>res_\<close>, \<^verbatim>\<open>acm_\<close> (a pointer
  that may be null) and \<^verbatim>\<open>done_\<close>.
\<close>

record CollisionData =
  cd_req :: CollisionRequest
  cd_res :: CollisionResult
  cd_acm :: "AllowedCollisionMatrix option"
  cd_done :: bool

text \<open>
  \<^verbatim>\<open>fcl::collide(o1, o2, num_max_contacts, exhaustive, enable_contact, contacts)\<close>
  is the narrow phase, a parameter of the model: it returns the \<^verbatim>\<open>int\<close> result and
  the contents of the output vector.
\<close>

type_synonym 'g collide_fn =
  "'g CollisionObject \<Rightarrow> 'g CollisionObject \<Rightarrow> int \<Rightarrow> bool \<Rightarrow> bool \<Rightarrow> int \<times> 'g fcl_Contact list"

text \<open>The calls the callback makes to its collaborators, in order.\<close>

datatype 'g extcall =
    GetAllowedCollisionType string string
  | GetAllowedCollisionFn string string
  | Collide "'g CollisionObject" "'g CollisionObject" int bool bool

text \<open>Reading \<^verbatim>\<open>contacts[i]\<close> past the end of the vector is undefined in the source.\<close>

datatype error = IndexOutOfRange

section \<open>fcl2contact\<close>

definition fcl2contact :: "'g fcl_Contact \<Rightarrow> Contact" where
  "fcl2contact fc =
     \<lparr> pos = fc_pos fc,
       normal = fc_normal fc,
       depth = penetration_depth fc,
       body_name_1 = getID (getUserData (fc_o1 fc)),
       body_type_1 = cgd_type (getUserData (fc_o1 fc)),
       body_name_2 = getID (getUserData (fc_o2 fc)),
       body_type_2 = cgd_type (getUserData (fc_o2 fc)) \<rparr>"

section \<open>collisionCallback\<close>

subsection \<open>Allowed collision matrix and touch links\<close>

text \<open>
  Lines 52 to 76: the result is the calls made, whether the entry is \<^verbatim>\<open>ALWAYS\<close>, and
  the decider \<^verbatim>\<open>dcf\<close> (empty unless the entry is \<^verbatim>\<open>CONDITIONAL\<close> and the second
  lookup fills it).
\<close>

definition acm_lookup ::
  "AllowedCollisionMatrix option \<Rightarrow> string \<Rightarrow> string \<Rightarrow> 'g extcall list \<times> bool \<times> DecideContactFn option"
where
  "acm_lookup acm id1 id2 =
     (case acm of
        None \<Rightarrow> ([], False, None)
      | Some m \<Rightarrow>
          (case getAllowedCollisionType m id1 id2 of
             None \<Rightarrow> ([GetAllowedCollisionType id1 id2], False, None)
           | Some ty \<Rightarrow>
               if ty = ALWAYS then ([GetAllowedCollisionType id1 id2], True, None)
               else if ty = CONDITIONAL then
                 ([GetAllowedCollisionType id1 id2, GetAllowedCollisionFn id1 id2], False,
                  getAllowedCollisionFn m id1 id2)
               else ([GetAllowedCollisionType id1 id2], False, None)))"

text \<open>Lines 79 to 99: a robot link touching an attached object that lists it.\<close>

definition touch_link_allowed :: "CollisionGeometryData \<Rightarrow> CollisionGeometryData \<Rightarrow> bool" where
  "touch_link_allowed cd1 cd2 =
     (if cgd_type cd1 = ROBOT_LINK \<and> cgd_type cd2 = ROBOT_ATTACHED then
        getID cd1 \<in> touch_links cd2
      else if cgd_type cd2 = ROBOT_LINK \<and> cgd_type cd1 = ROBOT_ATTACHED then
        getID cd2 \<in> touch_links cd1
      else False)"

subsection \<open>How many contacts to ask for\<close>

text \<open>
  The key of a pair in the result's map, written out in the source at each use as
  \<^verbatim>\<open>id1 < id2 ? make_pair(id1, id2) : make_pair(id2, id1)\<close>.
\<close>

definition pair_key :: "string \<Rightarrow> string \<Rightarrow> string \<times> string" where
  "pair_key id1 id2 = (if id1 < id2 then (id1, id2) else (id2, id1))"

text \<open>\<^verbatim>\<open>contacts.find(cp) != contacts.end() ? contacts[cp].size() : 0\<close>\<close>

definition have_contacts :: "ContactMap \<Rightarrow> string \<times> string \<Rightarrow> nat" where
  "have_contacts m cp = (case m cp of None \<Rightarrow> 0 | Some v \<Rightarrow> length v)"

text \<open>Lines 106 to 123.\<close>

definition want_contact_count ::
  "CollisionRequest \<Rightarrow> CollisionResult \<Rightarrow> string \<Rightarrow> string \<Rightarrow> nat"
where
  "want_contact_count req res id1 id2 =
     (if req_contacts req then
        if contact_count res < max_contacts req then
          let have = (if id1 < id2 then have_contacts (contacts res) (id1, id2)
                      else have_contacts (contacts res) (id2, id1))
          in if have < max_contacts_per_pair req then max_contacts_per_pair req - have else 0
        else 0
      else 0)"

subsection \<open>Storing contacts\<close>

text \<open>
  \<^verbatim>\<open>res_->contacts[pc].push_back(c); res_->contact_count++\<close>: \<^verbatim>\<open>operator[]\<close>
  creates an empty vector for a key that is not in the map yet.
\<close>

definition contacts_at :: "ContactMap \<Rightarrow> string \<times> string \<Rightarrow> Contact list" where
  "contacts_at m pc = (case m pc of None \<Rightarrow> [] | Some v \<Rightarrow> v)"

definition store_contact :: "string \<times> string \<Rightarrow> Contact \<Rightarrow> CollisionResult \<Rightarrow> CollisionResult" where
  "store_contact pc c res =
     res\<lparr> contacts := (contacts res)(pc \<mapsto> contacts_at (contacts res) pc @ [c]),
          contact_count := contact_count res + 1 \<rparr>"

text \<open>
  The loop of lines 140 to 160 over a conditionally allowed pair. The list is the part
  of the vector from index \<open>i\<close> on, the number is \<open>num_contacts - i\<close>. Every round
  fills \<^verbatim>\<open>c\<close> afresh with \<^verbatim>\<open>fcl2contact\<close>, hands it to the decider, and stores
  what the decider left in it.
\<close>

fun decide_loop ::
  "DecideContactFn \<Rightarrow> string \<times> string \<Rightarrow> 'g fcl_Contact list \<Rightarrow> nat \<Rightarrow> nat \<Rightarrow> CollisionResult
     \<Rightarrow> error + CollisionResult"
where
  "decide_loop dcf pc cs 0 want res = Inr res"
| "decide_loop dcf pc [] (Suc n) want res = Inl IndexOutOfRange"
| "decide_loop dcf pc (fc # cs) (Suc n) want res =
     (let d = dcf (fcl2contact fc) in
      if fst d = False then
        let want' = (if want > 0 then want - 1 else want);
            res' = (if want > 0 then store_contact pc (snd d) res else res);
            res'' = res'\<lparr> collision := True \<rparr>
        in if want' = 0 then Inr res'' else decide_loop dcf pc cs n want' res''
      else decide_loop dcf pc cs n want res)"

text \<open>The loop of lines 189 to 195.\<close>

fun store_loop ::
  "string \<times> string \<Rightarrow> 'g fcl_Contact list \<Rightarrow> nat \<Rightarrow> CollisionResult \<Rightarrow> error + CollisionResult"
where
  "store_loop pc cs 0 res = Inr res"
| "store_loop pc [] (Suc n) res = Inl IndexOutOfRange"
| "store_loop pc (fc # cs) (Suc n) res = store_loop pc cs n (store_contact pc (fcl2contact fc) res)"

subsection \<open>The three narrow-phase queries\<close>

text \<open>\<^verbatim>\<open>std::numeric_limits<int>::max()\<close> of a 32-bit \<^verbatim>\<open>int\<close>.\<close>

definition INT_MAX :: int where
  "INT_MAX = 2147483647"

text \<open>
  \<^verbatim>\<open>want_contact_count\<close> is passed where \<^verbatim>\<open>fcl::collide\<close> takes an \<^verbatim>\<open>int\<close>:
  the conversion keeps the low 32 bits, read as a signed number.
\<close>

definition size_t_to_int :: "nat \<Rightarrow> int" where
  "size_t_to_int n =
     (let m = int n mod 4294967296 in if m < 2147483648 then m else m - 4294967296)"

text \<open>Lines 125 to 212.\<close>

definition contact_branch ::
  "'g collide_fn \<Rightarrow> 'g CollisionObject \<Rightarrow> 'g CollisionObject \<Rightarrow> DecideContactFn option \<Rightarrow> nat
     \<Rightarrow> CollisionResult \<Rightarrow> 'g extcall list \<times> (error + CollisionResult)"
where
  "contact_branch collide o1 o2 dcf want res =
     (let pc = pair_key (getID (getUserData o1)) (getID (getUserData o2)) in
      case dcf of
        Some f \<Rightarrow>
          (let (num_contacts, cs) = collide o1 o2 INT_MAX True True in
           ([Collide o1 o2 INT_MAX True True],
            if num_contacts > 0 then
              decide_loop f pc cs (nat num_contacts) want res
            else Inr res))
      | None \<Rightarrow>
          if want > 0 then
            (let cap = size_t_to_int want;
                 (num_contacts, cs) = collide o1 o2 cap False True in
             ([Collide o1 o2 cap False True],
              if num_contacts > 0 then
                let num_contacts' =
                      (if want \<ge> nat num_contacts then nat num_contacts
                       else want)
                in store_loop pc cs num_contacts' (res\<lparr> collision := True \<rparr>)
              else Inr res))
          else
            (let (num_contacts, cs) = collide o1 o2 1 False False in
             ([Collide o1 o2 1 False False],
              if num_contacts > 0 then Inr (res\<lparr> collision := True \<rparr>) else Inr res)))"

subsection \<open>The termination check and the callback\<close>

text \<open>Lines 214 to 221.\<close>

definition termination_check :: "CollisionData \<Rightarrow> CollisionData" where
  "termination_check cdata =
     (if collision (cd_res cdata) then
        if \<not> req_contacts (cd_req cdata)
           \<or> contact_count (cd_res cdata) \<ge> max_contacts (cd_req cdata)
        then cdata\<lparr> cd_done := True \<rparr>
        else cdata
      else cdata)"

text \<open>
  \<^verbatim>\<open>collisionCallback(o1, o2, data)\<close>: the calls made, and either the returned flag
  with the updated \<^verbatim>\<open>CollisionData\<close> or the undefined read.
\<close>

definition collisionCallback ::
  "'g collide_fn \<Rightarrow> 'g CollisionObject \<Rightarrow> 'g CollisionObject \<Rightarrow> CollisionData
     \<Rightarrow> 'g extcall list \<times> (error + bool \<times> CollisionData)"
where
  "collisionCallback collide o1 o2 cdata =
     (if cd_done cdata then ([], Inr (True, cdata))
      else
        let cd1 = getUserData o1;
            cd2 = getUserData o2;
            (calls, acm_always, dcf) = acm_lookup (cd_acm cdata) (getID cd1) (getID cd2);
            always_allow_collision = (acm_always \<or> touch_link_allowed cd1 cd2)
        in if always_allow_collision then (calls, Inr (False, cdata))
           else
             let want = want_contact_count (cd_req cdata) (cd_res cdata) (getID cd1) (getID cd2);
                 (calls', r) = contact_branch collide o1 o2 dcf want (cd_res cdata)
             in (calls @ calls',
                 case r of
                   Inl e \<Rightarrow> Inl e
                 | Inr res' \<Rightarrow>
                     let cdata' = termination_check (cdata\<lparr> cd_res := res' \<rparr>)
                     in Inr (cd_done cdata', cdata')))"

text \<open>Which of the recorded calls are narrow-phase queries.\<close>

fun is_collide :: "'g extcall \<Rightarrow> bool" where
  "is_collide (Collide a b cap ex en) = True"
| "is_collide (GetAllowedCollisionType a b) = False"
| "is_collide (GetAllowedCollisionFn a b) = False"

subsection \<open>A run of the broad phase\<close>

text \<open>
  The broad phase hands candidate pairs to the callback one after the other, all of them
  with the same \<^verbatim>\<open>CollisionData\<close>. A run is any finite sequence of such calls.
\<close>

fun run ::
  "'g collide_fn \<Rightarrow> ('g CollisionObject \<times> 'g CollisionObject) list \<Rightarrow> CollisionData
     \<Rightarrow> error + CollisionData"
where
  "run collide [] cdata = Inr cdata"
| "run collide (p # ps) cdata =
     (case snd (collisionCallback collide (fst p) (snd p) cdata) of
        Inl e \<Rightarrow> Inl e
      | Inr rc \<Rightarrow> run collide ps (snd rc))"

section \<open>createCollisionGeometry for static shapes\<close>

text \<open>
  \<^verbatim>\<open>shapes::StaticShape\<close> is declared outside this file. The function reads its type
  tag, of which it names the enumerator \<^verbatim>\<open>PLANE\<close>, and for a plane the four
  coefficients. Any other tag is kept with its integer value.
\<close>

datatype StaticShapeType = PLANE | OTHER_STATIC_SHAPE int

record StaticShape =
  shape_type :: StaticShapeType
  plane_a :: real
  plane_b :: real
  plane_c :: real
  plane_d :: real

text \<open>
  The geometry built for a plane; the flag records that \<^verbatim>\<open>computeLocalAABB()\<close> has
  been called on it. A null pointer is \<open>None\<close>.
\<close>

datatype fcl_CollisionGeometry = fcl_Plane real real real real bool

fun computeLocalAABB :: "fcl_CollisionGeometry \<Rightarrow> fcl_CollisionGeometry" where
  "computeLocalAABB (fcl_Plane a b c d f) = fcl_Plane a b c d True"

datatype log_entry = ROS_FATAL_shape_type_not_supported StaticShapeType

definition createCollisionGeometry ::
  "StaticShape \<Rightarrow> log_entry list \<times> fcl_CollisionGeometry option"
where
  "createCollisionGeometry shape =
     (let (msgs, g) =
            (case shape_type shape of
               PLANE \<Rightarrow>
                 ([], Some (fcl_Plane (plane_a shape) (plane_b shape) (plane_c shape)
                              (plane_d shape) False))
             | OTHER_STATIC_SHAPE n \<Rightarrow>
                 ([ROS_FATAL_shape_type_not_supported (shape_type shape)], None))
      in (msgs, case g of None \<Rightarrow> None | Some g' \<Rightarrow> Some (computeLocalAABB g')))"

section \<open>A small scene\<close>

text \<open>Concrete bodies, narrow phases and requests on which the results below are run.\<close>

definition ex_body :: "BodyType \<Rightarrow> string \<Rightarrow> string set \<Rightarrow> nat CollisionObject" where
  "ex_body t n tls =
     \<lparr> geometry = 0, getUserData = \<lparr> cgd_type = t, getID = n, touch_links = tls \<rparr> \<rparr>"

definition ex_raw :: "nat CollisionObject \<Rightarrow> nat CollisionObject \<Rightarrow> nat fcl_Contact" where
  "ex_raw a b =
     \<lparr> fc_o1 = a, fc_o2 = b, fc_pos = (0, 0, 0), fc_normal = (0, 0, 1), penetration_depth = 0 \<rparr>"

text \<open>A narrow phase that finds \<open>k\<close> contacts for every pair, whatever the cap.\<close>

definition ex_collide :: "nat \<Rightarrow> nat collide_fn" where
  "ex_collide k a b cap ex en = (int k, replicate k (ex_raw a b))"

definition ex_req :: "bool \<Rightarrow> nat \<Rightarrow> nat \<Rightarrow> CollisionRequest" where
  "ex_req wc mt mp =
     \<lparr> req_contacts = wc, max_contacts = mt, max_contacts_per_pair = mp, verbose = False \<rparr>"

definition ex_empty_result :: CollisionResult where
  "ex_empty_result = \<lparr> collision = False, contact_count = 0, contacts = Map.empty \<rparr>"

definition ex_data :: "CollisionRequest \<Rightarrow> AllowedCollisionMatrix option \<Rightarrow> CollisionData" where
  "ex_data rq acm = \<lparr> cd_req = rq, cd_res = ex_empty_result, cd_acm = acm, cd_done = False \<rparr>"

text \<open>A matrix whose every entry is conditional, with the same decider.\<close>

definition ex_acm_conditional :: "DecideContactFn \<Rightarrow> AllowedCollisionMatrix" where
  "ex_acm_conditional f =
     \<lparr> getAllowedCollisionType = (\<lambda>a b. Some CONDITIONAL),
       getAllowedCollisionFn = (\<lambda>a b. Some f) \<rparr>"

text \<open>A decider that rejects every contact and swaps the two bodies in it.\<close>

definition ex_reject_swapped :: DecideContactFn where
  "ex_reject_swapped c =
     (False, c\<lparr> body_name_1 := body_name_2 c, body_type_1 := body_type_2 c,
                body_name_2 := body_name_1 c, body_type_2 := body_type_1 c \<rparr>)"

section \<open>Unfolding the definitions\<close>

lemmas ex_defs = ex_body_def ex_raw_def ex_collide_def ex_req_def ex_empty_result_def ex_data_def
  ex_acm_conditional_def ex_reject_swapped_def

lemmas callback_defs = collisionCallback_def acm_lookup_def touch_link_allowed_def
  want_contact_count_def have_contacts_def contact_branch_def pair_key_def size_t_to_int_def
  store_contact_def termination_check_def contacts_at_def fcl2contact_def INT_MAX_def Let_def

section \<open>The loops and one call of the callback\<close>

lemma have_contacts_length: "have_contacts m k = length (contacts_at m k)"
  by (simp add: have_contacts_def contacts_at_def split: option.splits)

lemma store_contact_simps [simp]:
  "collision (store_contact pc c res) = collision res"
  "contact_count (store_contact pc c res) = Suc (contact_count res)"
  "contacts_at (contacts (store_contact pc c res)) pc = contacts_at (contacts res) pc @ [c]"
  "k \<noteq> pc \<Longrightarrow> contacts (store_contact pc c res) k = contacts res k"
  by (simp_all add: store_contact_def contacts_at_def)

lemma store_loop_Inr:
  "store_loop pc cs n res = Inr res' \<Longrightarrow>
     n \<le> length cs
     \<and> contacts_at (contacts res') pc = contacts_at (contacts res) pc @ map fcl2contact (take n cs)
     \<and> (\<forall>k. k \<noteq> pc \<longrightarrow> contacts res' k = contacts res k)
     \<and> contact_count res' = contact_count res + n
     \<and> collision res' = collision res"
proof (induction pc cs n res rule: store_loop.induct)
  case (1 pc cs res)
  then show ?case by simp
next
  case (2 pc n res)
  then show ?case by simp
next
  case (3 pc fc cs n res)
  from "3.prems" have "store_loop pc cs n (store_contact pc (fcl2contact fc) res) = Inr res'"
    by simp
  from "3.IH" [OF this] show ?case by simp
qed

lemma store_loop_defined:
  "n \<le> length cs \<Longrightarrow> \<exists>res'. store_loop pc cs n res = Inr res'"
  by (induction pc cs n res rule: store_loop.induct) simp_all

lemma decide_loop_exact:
  "decide_loop dcf pc cs n want res = Inr res' \<Longrightarrow>
     contacts_at (contacts res') pc
       = contacts_at (contacts res) pc
         @ take want (map (\<lambda>fc. snd (dcf (fcl2contact fc)))
                        (filter (\<lambda>fc. \<not> fst (dcf (fcl2contact fc))) (take n cs)))
     \<and> (\<forall>k. k \<noteq> pc \<longrightarrow> contacts res' k = contacts res k)
     \<and> contact_count res'
         = contact_count res
           + min want (length (filter (\<lambda>fc. \<not> fst (dcf (fcl2contact fc))) (take n cs)))
     \<and> collision res'
         = (collision res \<or> filter (\<lambda>fc. \<not> fst (dcf (fcl2contact fc))) (take n cs) \<noteq> [])"
proof (induction cs arbitrary: n want res)
  case Nil
  then show ?case by (cases n) simp_all
next
  case (Cons fc cs)
  show ?case
  proof (cases n)
    case 0
    with Cons.prems show ?thesis by simp
  next
    case n: (Suc m)
    show ?thesis
    proof (cases "fst (dcf (fcl2contact fc))")
      case True
      with Cons.prems n have "decide_loop dcf pc cs m want res = Inr res'"
        by (simp add: Let_def)
      from Cons.IH [OF this] True n show ?thesis by simp
    next
      case rejected: False
      show ?thesis
      proof (cases want)
        case 0
        with rejected Cons.prems n have "res' = res\<lparr>collision := True\<rparr>"
          by (simp add: Let_def)
        with rejected n 0 show ?thesis by simp
      next
        case w: (Suc w)
        define res1 where
          "res1 = (store_contact pc (snd (dcf (fcl2contact fc))) res)\<lparr>collision := True\<rparr>"
        show ?thesis
        proof (cases "w = 0")
          case True
          with rejected Cons.prems n w have "res' = res1"
            by (simp add: Let_def res1_def)
          with rejected n w True show ?thesis
            by (simp add: res1_def)
        next
          case False
          with rejected Cons.prems n w have "decide_loop dcf pc cs m w res1 = Inr res'"
            by (simp add: Let_def res1_def)
          from Cons.IH [OF this] rejected n w show ?thesis
            by (simp add: res1_def)
        qed
      qed
    qed
  qed
qed

lemma decide_loop_all_accepted:
  "n \<le> length cs \<Longrightarrow> \<forall>fc \<in> set (take n cs). fst (dcf (fcl2contact fc))
     \<Longrightarrow> decide_loop dcf pc cs n want res = Inr res"
  by (induction dcf pc cs n want res rule: decide_loop.induct) (simp_all add: Let_def)

lemma decide_loop_defined:
  "n \<le> length cs \<Longrightarrow> \<exists>res'. decide_loop dcf pc cs n want res = Inr res'"
  by (induction dcf pc cs n want res rule: decide_loop.induct) (simp_all add: Let_def)

lemma termination_check_simps [simp]:
  "cd_res (termination_check cdata) = cd_res cdata"
  "cd_req (termination_check cdata) = cd_req cdata"
  "cd_acm (termination_check cdata) = cd_acm cdata"
  by (simp_all add: termination_check_def)

lemma termination_check_done:
  "cd_done (termination_check cdata) =
     (if collision (cd_res cdata)
         \<and> (\<not> req_contacts (cd_req cdata) \<or> max_contacts (cd_req cdata) \<le> contact_count (cd_res cdata))
      then True else cd_done cdata)"
  by (simp add: termination_check_def)

lemma contact_branch_decider:
  fixes collide :: "'g collide_fn"
  assumes "contact_branch collide o1 o2 (Some f) want res = (calls, Inr res')"
  shows "calls = [Collide o1 o2 INT_MAX True True]
     \<and> contacts_at (contacts res') (pair_key (getID (getUserData o1)) (getID (getUserData o2)))
         = contacts_at (contacts res) (pair_key (getID (getUserData o1)) (getID (getUserData o2)))
           @ take want (map (\<lambda>fc. snd (f (fcl2contact fc)))
               (filter (\<lambda>fc. \<not> fst (f (fcl2contact fc)))
                  (take (nat (fst (collide o1 o2 INT_MAX True True)))
                     (snd (collide o1 o2 INT_MAX True True)))))
     \<and> (\<forall>k. k \<noteq> pair_key (getID (getUserData o1)) (getID (getUserData o2))
            \<longrightarrow> contacts res' k = contacts res k)
     \<and> contact_count res'
         = contact_count res
           + min want (length (filter (\<lambda>fc. \<not> fst (f (fcl2contact fc)))
                  (take (nat (fst (collide o1 o2 INT_MAX True True)))
                     (snd (collide o1 o2 INT_MAX True True)))))
     \<and> collision res'
         = (collision res
            \<or> filter (\<lambda>fc. \<not> fst (f (fcl2contact fc)))
                  (take (nat (fst (collide o1 o2 INT_MAX True True)))
                     (snd (collide o1 o2 INT_MAX True True))) \<noteq> [])"
proof -
  let ?pc = "pair_key (getID (getUserData o1)) (getID (getUserData o2))"
  obtain n cs where C: "collide o1 o2 INT_MAX True True = (n, cs)"
    by (cases "collide o1 o2 INT_MAX True True")
  have calls: "calls = [Collide o1 o2 INT_MAX True True]"
    using assms C by (simp add: contact_branch_def)
  show ?thesis
  proof (cases "n > 0")
    case True
    with assms C have "decide_loop f ?pc cs (nat n) want res = Inr res'"
      by (simp add: contact_branch_def)
    from decide_loop_exact [OF this] calls C show ?thesis by simp
  next
    case False
    with assms C have "res' = res" by (simp add: contact_branch_def)
    with False calls C show ?thesis by simp
  qed
qed

lemma contact_branch_plain:
  fixes collide :: "'g collide_fn"
  assumes "contact_branch collide o1 o2 None want res = (calls, Inr res')"
  shows "calls = [if want > 0 then Collide o1 o2 (size_t_to_int want) False True
                  else Collide o1 o2 1 False False]
     \<and> contacts_at (contacts res') (pair_key (getID (getUserData o1)) (getID (getUserData o2)))
         = contacts_at (contacts res) (pair_key (getID (getUserData o1)) (getID (getUserData o2)))
           @ map fcl2contact
               (take (min (nat (fst (collide o1 o2 (size_t_to_int want) False True))) want)
                  (snd (collide o1 o2 (size_t_to_int want) False True)))
     \<and> (\<forall>k. k \<noteq> pair_key (getID (getUserData o1)) (getID (getUserData o2))
            \<longrightarrow> contacts res' k = contacts res k)
     \<and> contact_count res'
         = contact_count res + min (nat (fst (collide o1 o2 (size_t_to_int want) False True))) want
     \<and> collision res'
         = (collision res
            \<or> (if want > 0 then 0 < fst (collide o1 o2 (size_t_to_int want) False True)
                else 0 < fst (collide o1 o2 1 False False)))"
proof (cases "want > 0")
  case True
  let ?pc = "pair_key (getID (getUserData o1)) (getID (getUserData o2))"
  obtain n cs where C: "collide o1 o2 (size_t_to_int want) False True = (n, cs)"
    by (cases "collide o1 o2 (size_t_to_int want) False True")
  have calls: "calls = [Collide o1 o2 (size_t_to_int want) False True]"
    using assms True C by (simp add: contact_branch_def Let_def)
  show ?thesis
  proof (cases "n > 0")
    case pos: True
    have k: "(if nat n \<le> want then nat n else want) = min (nat n) want"
      by (simp add: min_def)
    from assms True C pos
    have "store_loop ?pc cs (min (nat n) want) (res\<lparr>collision := True\<rparr>) = Inr res'"
      by (simp add: contact_branch_def Let_def k)
    from store_loop_Inr [OF this] True pos calls C show ?thesis by simp
  next
    case False
    with assms True C have "res' = res" by (simp add: contact_branch_def Let_def)
    with True False calls C show ?thesis by simp
  qed
next
  case False
  obtain n cs where C: "collide o1 o2 1 False False = (n, cs)"
    by (cases "collide o1 o2 1 False False")
  from assms False C have "res' = res\<lparr>collision := collision res \<or> 0 < n\<rparr>"
    "calls = [Collide o1 o2 1 False False]"
    by (simp_all add: contact_branch_def split: if_splits)
  with False C show ?thesis by simp
qed

lemma contact_branch_Inr:
  fixes collide :: "'g collide_fn"
  assumes "contact_branch collide o1 o2 dcf want res = (calls, Inr res')"
  shows "\<exists>new. contacts_at (contacts res') (pair_key (getID (getUserData o1)) (getID (getUserData o2)))
              = contacts_at (contacts res) (pair_key (getID (getUserData o1)) (getID (getUserData o2))) @ new
       \<and> length new \<le> want
       \<and> (\<forall>k. k \<noteq> pair_key (getID (getUserData o1)) (getID (getUserData o2))
              \<longrightarrow> contacts res' k = contacts res k)"
proof (cases dcf)
  case None
  from contact_branch_plain [OF assms [unfolded None]] show ?thesis
    by (intro exI [of _ "map fcl2contact
               (take (min (nat (fst (collide o1 o2 (size_t_to_int want) False True))) want)
                  (snd (collide o1 o2 (size_t_to_int want) False True)))"]) simp
next
  case (Some f)
  from contact_branch_decider [OF assms [unfolded Some]] show ?thesis
    by (intro exI [of _ "take want (map (\<lambda>fc. snd (f (fcl2contact fc)))
               (filter (\<lambda>fc. \<not> fst (f (fcl2contact fc)))
                  (take (nat (fst (collide o1 o2 INT_MAX True True)))
                     (snd (collide o1 o2 INT_MAX True True)))))"]) simp
qed

lemma callback_skips:
  fixes collide :: "'g collide_fn" and calls0 :: "'g extcall list"
  assumes "collisionCallback collide o1 o2 cdata = (calls, Inr (r, cdata'))"
    and "acm_lookup (cd_acm cdata) (getID (getUserData o1)) (getID (getUserData o2)) = (calls0, al, dcf)"
    and "cd_done cdata \<or> al \<or> touch_link_allowed (getUserData o1) (getUserData o2)"
  shows "cdata' = cdata"
  using assms by (cases "cd_done cdata") (auto simp: collisionCallback_def Let_def)

lemma callback_reaches_branch:
  fixes collide :: "'g collide_fn" and calls0 :: "'g extcall list"
  assumes "collisionCallback collide o1 o2 cdata = (calls, Inr (r, cdata'))"
    and "acm_lookup (cd_acm cdata) (getID (getUserData o1)) (getID (getUserData o2)) = (calls0, al, dcf)"
    and "\<not> cd_done cdata" and "\<not> al"
    and "\<not> touch_link_allowed (getUserData o1) (getUserData o2)"
  shows "\<exists>calls1 res'.
           contact_branch collide o1 o2 dcf
             (want_contact_count (cd_req cdata) (cd_res cdata)
                (getID (getUserData o1)) (getID (getUserData o2)))
             (cd_res cdata) = (calls1, Inr res')
           \<and> calls = calls0 @ calls1
           \<and> cdata' = termination_check (cdata\<lparr>cd_res := res'\<rparr>)
           \<and> r = cd_done cdata'"
proof -
  obtain calls1 b where B: "contact_branch collide o1 o2 dcf
             (want_contact_count (cd_req cdata) (cd_res cdata)
                (getID (getUserData o1)) (getID (getUserData o2)))
             (cd_res cdata) = (calls1, b)"
    by (cases "contact_branch collide o1 o2 dcf
             (want_contact_count (cd_req cdata) (cd_res cdata)
                (getID (getUserData o1)) (getID (getUserData o2)))
             (cd_res cdata)")
  with assms show ?thesis
    by (auto simp: collisionCallback_def Let_def split: sum.splits)
qed

lemma callback_step:
  fixes collide :: "'g collide_fn"
  assumes "collisionCallback collide o1 o2 cdata = (calls, Inr (r, cdata'))"
  shows "cd_req cdata' = cd_req cdata \<and> cd_acm cdata' = cd_acm cdata \<and> r = cd_done cdata'
       \<and> (\<exists>new. contacts_at (contacts (cd_res cdata')) (pair_key (getID (getUserData o1)) (getID (getUserData o2)))
              = contacts_at (contacts (cd_res cdata)) (pair_key (getID (getUserData o1)) (getID (getUserData o2))) @ new
            \<and> length new \<le> want_contact_count (cd_req cdata) (cd_res cdata)
                               (getID (getUserData o1)) (getID (getUserData o2))
            \<and> (\<forall>k. k \<noteq> pair_key (getID (getUserData o1)) (getID (getUserData o2))
                  \<longrightarrow> contacts (cd_res cdata') k = contacts (cd_res cdata) k))"
proof (cases "cd_done cdata")
  case True
  with assms have "cdata' = cdata" "r = True" by (simp_all add: collisionCallback_def)
  with True show ?thesis by simp
next
  case notdone: False
  let ?id1 = "getID (getUserData o1)" and ?id2 = "getID (getUserData o2)"
  obtain calls0 :: "'g extcall list" and al dcf
    where L: "acm_lookup (cd_acm cdata) ?id1 ?id2 = (calls0, al, dcf)"
    using prod_cases3 by blast
  show ?thesis
  proof (cases "al \<or> touch_link_allowed (getUserData o1) (getUserData o2)")
    case True
    with assms notdone L have "cdata' = cdata" "r = False"
      by (auto simp: collisionCallback_def Let_def)
    with notdone show ?thesis by simp
  next
    case False
    let ?want = "want_contact_count (cd_req cdata) (cd_res cdata) ?id1 ?id2"
    obtain calls1 b where B: "contact_branch collide o1 o2 dcf ?want (cd_res cdata) = (calls1, b)"
      by (cases "contact_branch collide o1 o2 dcf ?want (cd_res cdata)")
    from assms notdone L False B obtain res' where
      R: "b = Inr res'" and
      D: "cdata' = termination_check (cdata\<lparr>cd_res := res'\<rparr>)" and
      r: "r = cd_done cdata'"
      by (auto simp: collisionCallback_def Let_def split: sum.splits)
    from contact_branch_Inr [OF B [unfolded R]] D r show ?thesis by simp
  qed
qed

lemma acm_lookup_no_collide:
  "acm_lookup acm a b = (calls, al, dcf) \<Longrightarrow> c \<in> set calls \<Longrightarrow> \<not> is_collide c"
  by (auto simp: acm_lookup_def split: option.splits if_splits)

lemma acm_lookup_always:
  "acm_lookup acm a b = (calls, al, dcf) \<Longrightarrow> acm = Some m
     \<Longrightarrow> getAllowedCollisionType m a b = Some ALWAYS \<Longrightarrow> al"
  by (simp add: acm_lookup_def)

lemma want_contact_count_room:
  "have_contacts (contacts res) (pair_key id1 id2) \<le> max_contacts_per_pair req
     \<Longrightarrow> have_contacts (contacts res) (pair_key id1 id2) + want_contact_count req res id1 id2
           \<le> max_contacts_per_pair req"
  by (simp add: want_contact_count_def pair_key_def Let_def)

lemma have_contacts_eqI: "m' k = m k \<Longrightarrow> have_contacts m' k = have_contacts m k"
  by (simp add: have_contacts_def)

lemma callback_keeps_pair_bound:
  fixes collide :: "'g collide_fn"
  assumes step: "collisionCallback collide o1 o2 cdata = (calls, Inr (r, cdata'))"
    and inv: "\<forall>k. have_contacts (contacts (cd_res cdata)) k \<le> max_contacts_per_pair (cd_req cdata)"
  shows "\<forall>k. have_contacts (contacts (cd_res cdata')) k \<le> max_contacts_per_pair (cd_req cdata')"
proof
  fix k
  let ?pc = "pair_key (getID (getUserData o1)) (getID (getUserData o2))"
  from callback_step [OF step] obtain new where
    rq: "cd_req cdata' = cd_req cdata" and
    at: "contacts_at (contacts (cd_res cdata')) ?pc = contacts_at (contacts (cd_res cdata)) ?pc @ new" and
    ln: "length new \<le> want_contact_count (cd_req cdata) (cd_res cdata)
                               (getID (getUserData o1)) (getID (getUserData o2))" and
    other: "\<forall>k. k \<noteq> ?pc \<longrightarrow> contacts (cd_res cdata') k = contacts (cd_res cdata) k"
    by blast
  show "have_contacts (contacts (cd_res cdata')) k \<le> max_contacts_per_pair (cd_req cdata')"
  proof (cases "k = ?pc")
    case True
    have "have_contacts (contacts (cd_res cdata')) ?pc
            = have_contacts (contacts (cd_res cdata)) ?pc + length new"
      using at by (simp add: have_contacts_length)
    also have "\<dots> \<le> max_contacts_per_pair (cd_req cdata)"
      using want_contact_count_room [of "cd_res cdata" "getID (getUserData o1)" "getID (getUserData o2)" "cd_req cdata"]
        inv ln by (meson add_le_cancel_left le_trans)
    finally show ?thesis using True rq by simp
  next
    case False
    with other have "contacts (cd_res cdata') k = contacts (cd_res cdata) k"
      by blast
    then have "have_contacts (contacts (cd_res cdata')) k = have_contacts (contacts (cd_res cdata)) k"
      by (rule have_contacts_eqI)
    with inv [rule_format, of k] rq show ?thesis by simp
  qed
qed

lemma contact_branch_defined:
  fixes collide :: "'g collide_fn"
  assumes wf: "\<forall>cap ex en. fst (collide o1 o2 cap ex en) \<le> int (length (snd (collide o1 o2 cap ex en)))"
  shows "\<exists>calls res'. contact_branch collide o1 o2 dcf want res = (calls, Inr res')"
proof -
  let ?pc = "pair_key (getID (getUserData o1)) (getID (getUserData o2))"
  have W: "collide o1 o2 cap ex en = (n, cs) \<Longrightarrow> nat n \<le> length cs" for cap ex en n cs
    using wf [rule_format, of cap ex en] by simp
  show ?thesis
  proof (cases dcf)
    case (Some f)
    obtain n cs where C: "collide o1 o2 INT_MAX True True = (n, cs)"
      by (cases "collide o1 o2 INT_MAX True True")
    from decide_loop_defined [OF W [OF C], of f ?pc want res] C Some show ?thesis
      by (auto simp: contact_branch_def)
  next
    case None
    show ?thesis
    proof (cases "want > 0")
      case True
      obtain n cs where C: "collide o1 o2 (size_t_to_int want) False True = (n, cs)"
        by (cases "collide o1 o2 (size_t_to_int want) False True")
      have "(if nat n \<le> want then nat n else want) \<le> length cs"
        using W [OF C] by simp
      from store_loop_defined [OF this, of ?pc "res\<lparr>collision := True\<rparr>"] C None True
      show ?thesis by (auto simp: contact_branch_def Let_def)
    next
      case False
      with None show ?thesis
        by (auto simp: contact_branch_def split: prod.splits)
    qed
  qed
qed

lemma callback_defined:
  fixes collide :: "'g collide_fn"
  assumes wf: "\<forall>cap ex en. fst (collide o1 o2 cap ex en) \<le> int (length (snd (collide o1 o2 cap ex en)))"
  shows "\<exists>calls r cdata'. collisionCallback collide o1 o2 cdata = (calls, Inr (r, cdata'))"
proof -
  let ?id1 = "getID (getUserData o1)" and ?id2 = "getID (getUserData o2)"
  obtain calls0 :: "'g extcall list" and al dcf
    where L: "acm_lookup (cd_acm cdata) ?id1 ?id2 = (calls0, al, dcf)"
    using prod_cases3 by blast
  from contact_branch_defined [of collide o1 o2, OF wf] obtain calls1 res' where
    "contact_branch collide o1 o2 dcf (want_contact_count (cd_req cdata) (cd_res cdata) ?id1 ?id2)
       (cd_res cdata) = (calls1, Inr res')"
    by blast
  with L show ?thesis
    by (cases "cd_done cdata") (auto simp: collisionCallback_def Let_def)
qed

lemma pair_key_same: "pair_key a a = (a, a)"
  by (simp add: pair_key_def)

lemma ex_callback_b_a:
  "collisionCallback (ex_collide 1) (ex_body ROBOT_LINK ''b'' {}) (ex_body ROBOT_LINK ''a'' {})
      (ex_data (ex_req True 5 10) None)
    = ([Collide (ex_body ROBOT_LINK ''b'' {}) (ex_body ROBOT_LINK ''a'' {}) 10 False True],
       Inr (False, ex_data (ex_req True 5 10) None
         \<lparr> cd_res := \<lparr> collision = True, contact_count = 1,
              contacts = [(''a'', ''b'') \<mapsto>
                [fcl2contact (ex_raw (ex_body ROBOT_LINK ''b'' {}) (ex_body ROBOT_LINK ''a'' {}))]] \<rparr> \<rparr>))"
  by (simp add: callback_defs ex_defs)

lemma ex_callback_a_a:
  "collisionCallback (ex_collide 1) (ex_body ROBOT_LINK ''a'' {}) (ex_body ROBOT_LINK ''a'' {})
      (ex_data (ex_req True 5 10) None)
    = ([Collide (ex_body ROBOT_LINK ''a'' {}) (ex_body ROBOT_LINK ''a'' {}) 10 False True],
       Inr (False, ex_data (ex_req True 5 10) None
         \<lparr> cd_res := \<lparr> collision = True, contact_count = 1,
              contacts = [(''a'', ''a'') \<mapsto>
                [fcl2contact (ex_raw (ex_body ROBOT_LINK ''a'' {}) (ex_body ROBOT_LINK ''a'' {}))]] \<rparr> \<rparr>))"
  by (simp add: callback_defs ex_defs)

lemma ex_run_ab_ba:
  "run (ex_collide 2)
      [(ex_body ROBOT_LINK ''a'' {}, ex_body ROBOT_LINK ''b'' {}),
       (ex_body ROBOT_LINK ''b'' {}, ex_body ROBOT_LINK ''a'' {})]
      (ex_data (ex_req True 100 3) None)
    = Inr (ex_data (ex_req True 100 3) None
         \<lparr> cd_res := \<lparr> collision = True, contact_count = 3,
              contacts = [(''a'', ''b'') \<mapsto>
                 [fcl2contact (ex_raw (ex_body ROBOT_LINK ''a'' {}) (ex_body ROBOT_LINK ''b'' {})),
                  fcl2contact (ex_raw (ex_body ROBOT_LINK ''a'' {}) (ex_body ROBOT_LINK ''b'' {})),
                  fcl2contact (ex_raw (ex_body ROBOT_LINK ''b'' {}) (ex_body ROBOT_LINK ''a'' {}))]] \<rparr> \<rparr>)"
  by (simp add: callback_defs ex_defs eval_nat_numeral)

lemma ex_callback_no_contacts:
  "collisionCallback (ex_collide 3) (ex_body ROBOT_LINK ''a'' {}) (ex_body ROBOT_LINK ''b'' {})
        (ex_data (ex_req False 5 10) None)
      = ([Collide (ex_body ROBOT_LINK ''a'' {}) (ex_body ROBOT_LINK ''b'' {}) 1 False False],
         Inr (True, ex_data (ex_req False 5 10) None
            \<lparr> cd_res := \<lparr> collision = True, contact_count = 0, contacts = Map.empty \<rparr>,
              cd_done := True \<rparr>))"
  by (simp add: callback_defs ex_defs)

lemma pair_key_min_max: "pair_key a b = (min a b, max a b)"
  by (auto simp: pair_key_def min_def max_def)

lemma pair_key_commute: "pair_key b a = pair_key a b"
  by (auto simp: pair_key_def)

lemma fcl2contact_names:
  "body_name_1 (fcl2contact fc) = getID (getUserData (fc_o1 fc))"
  "body_name_2 (fcl2contact fc) = getID (getUserData (fc_o2 fc))"
  by (simp_all add: fcl2contact_def)

lemma ex_callback_b_a_swapped:
  "collisionCallback (ex_collide 1) (ex_body ROBOT_LINK ''b'' {}) (ex_body ROBOT_LINK ''a'' {})
      (ex_data (ex_req True 5 10) (Some (ex_acm_conditional ex_reject_swapped)))
    = ([GetAllowedCollisionType ''b'' ''a'', GetAllowedCollisionFn ''b'' ''a'',
        Collide (ex_body ROBOT_LINK ''b'' {}) (ex_body ROBOT_LINK ''a'' {}) INT_MAX True True],
       Inr (False, ex_data (ex_req True 5 10) (Some (ex_acm_conditional ex_reject_swapped))
         \<lparr> cd_res := \<lparr> collision = True, contact_count = 1,
              contacts = [(''a'', ''b'') \<mapsto>
                [snd (ex_reject_swapped
                   (fcl2contact (ex_raw (ex_body ROBOT_LINK ''b'' {}) (ex_body ROBOT_LINK ''a'' {}))))]] \<rparr> \<rparr>))"
  by (simp add: callback_defs ex_defs)

lemma ex_lookup_b_a_swapped:
  "acm_lookup (cd_acm (ex_data (ex_req True 5 10) (Some (ex_acm_conditional ex_reject_swapped))))
      (getID (getUserData (ex_body ROBOT_LINK ''b'' {}))) (getID (getUserData (ex_body ROBOT_LINK ''a'' {})))
    = ([GetAllowedCollisionType ''b'' ''a'', GetAllowedCollisionFn ''b'' ''a'' :: nat extcall],
       False, Some ex_reject_swapped)"
  by (simp add: acm_lookup_def ex_data_def ex_acm_conditional_def ex_body_def)

lemma ex_lookup_none:
  "acm_lookup (cd_acm (ex_data rq None)) a b = ([] :: nat extcall list, False, None)"
  by (simp add: acm_lookup_def ex_data_def)

section \<open>Results\<close>

subsection \<open>A call after the run is done\<close>

text \<open>
  C8. A call made while \<^verbatim>\<open>done_\<close> is set returns true at once: the
  \<^verbatim>\<open>CollisionData\<close> (collision flag, contact count, contacts, done flag) is returned as
  it was, and the list of calls to the matrix and to the narrow phase is empty.
\<close>

theorem callback_done_is_noop:
  "cd_done cdata \<Longrightarrow> collisionCallback collide o1 o2 cdata = ([], Inr (True, cdata))"
  by (simp add: collisionCallback_def)

theorem callback_done_is_noop_witness:
  "cd_done (ex_data (ex_req True 5 10) None \<lparr> cd_done := True \<rparr>)
   \<and> collisionCallback (ex_collide 3) (ex_body ROBOT_LINK ''a'' {}) (ex_body ROBOT_LINK ''b'' {})
        (ex_data (ex_req True 5 10) None \<lparr> cd_done := True \<rparr>)
      = ([], Inr (True, ex_data (ex_req True 5 10) None \<lparr> cd_done := True \<rparr>))"
  using callback_done_is_noop [of "ex_data (ex_req True 5 10) None \<lparr> cd_done := True \<rparr>"
      "ex_collide 3" "ex_body ROBOT_LINK ''a'' {}" "ex_body ROBOT_LINK ''b'' {}"]
  by simp

subsection \<open>The number of contacts wanted for a pair\<close>

text \<open>
  C5. \<^verbatim>\<open>want_contact_count\<close> is 0 when the request does not ask for contacts or when
  the contact count has reached \<^verbatim>\<open>max_contacts\<close>; otherwise it is
  \<^verbatim>\<open>max_contacts_per_pair\<close> minus the number of contacts stored under the pair's key,
  and 0 when that difference would be negative (the subtraction on naturals stops at 0).
\<close>

theorem want_contact_count_remaining:
  "want_contact_count req res id1 id2 =
     (if \<not> req_contacts req \<or> contact_count res \<ge> max_contacts req then 0
      else max_contacts_per_pair req - have_contacts (contacts res) (pair_key id1 id2))"
  by (simp add: want_contact_count_def pair_key_def Let_def)

theorem want_contact_count_remaining_witness:
  "want_contact_count (ex_req True 5 10)
      (store_contact (''a'', ''b'')
         (fcl2contact (ex_raw (ex_body ROBOT_LINK ''b'' {}) (ex_body ROBOT_LINK ''a'' {})))
         ex_empty_result)
      ''b'' ''a'' = 9"
  using want_contact_count_remaining [of "ex_req True 5 10"
      "store_contact (''a'', ''b'')
         (fcl2contact (ex_raw (ex_body ROBOT_LINK ''b'' {}) (ex_body ROBOT_LINK ''a'' {})))
         ex_empty_result"
      "''b''" "''a''"]
  by (simp add: ex_defs store_contact_def have_contacts_def pair_key_def contacts_at_def)

subsection \<open>Unsupported static shapes\<close>

text \<open>
  C10. For a static shape whose type is not \<^verbatim>\<open>PLANE\<close>, \<^verbatim>\<open>createCollisionGeometry\<close>
  logs the fatal message and returns a null pointer; it does not fail.
\<close>

theorem createCollisionGeometry_unsupported:
  "shape_type shape \<noteq> PLANE \<Longrightarrow>
     createCollisionGeometry shape = ([ROS_FATAL_shape_type_not_supported (shape_type shape)], None)"
  by (cases "shape_type shape") (simp_all add: createCollisionGeometry_def)

theorem createCollisionGeometry_unsupported_witness:
  "shape_type \<lparr> shape_type = OTHER_STATIC_SHAPE 0, plane_a = 0, plane_b = 0, plane_c = 1, plane_d = 0 \<rparr>
     \<noteq> PLANE
   \<and> createCollisionGeometry
        \<lparr> shape_type = OTHER_STATIC_SHAPE 0, plane_a = 0, plane_b = 0, plane_c = 1, plane_d = 0 \<rparr>
       = ([ROS_FATAL_shape_type_not_supported (OTHER_STATIC_SHAPE 0)], None)"
  using createCollisionGeometry_unsupported
    [of "\<lparr> shape_type = OTHER_STATIC_SHAPE 0, plane_a = 0, plane_b = 0, plane_c = 1, plane_d = 0 \<rparr>"]
  by simp

subsection \<open>Pairs that are always allowed\<close>

text \<open>
  C3. When the matrix has an \<^verbatim>\<open>ALWAYS\<close> entry for the pair, or one body is a robot link
  listed in the touch links of the other, an attached body (in either argument order, and
  whatever the matrix says, a conditional entry included), the call returns the
  \<^verbatim>\<open>CollisionData\<close> as it was: no contact is stored, the collision flag is not set, and
  none of the calls it made is a narrow-phase query.
\<close>

theorem always_allowed_pair_untouched:
  fixes collide :: "'g collide_fn"
  assumes "(\<exists>m. cd_acm cdata = Some m
              \<and> getAllowedCollisionType m (getID (getUserData o1)) (getID (getUserData o2)) = Some ALWAYS)
           \<or> (cgd_type (getUserData o1) = ROBOT_LINK \<and> cgd_type (getUserData o2) = ROBOT_ATTACHED
              \<and> getID (getUserData o1) \<in> touch_links (getUserData o2))
           \<or> (cgd_type (getUserData o2) = ROBOT_LINK \<and> cgd_type (getUserData o1) = ROBOT_ATTACHED
              \<and> getID (getUserData o2) \<in> touch_links (getUserData o1))"
  shows "\<exists>calls. collisionCallback collide o1 o2 cdata = (calls, Inr (cd_done cdata, cdata))
           \<and> filter is_collide calls = []"
proof -
  obtain calls :: "'g extcall list" and al dcf
    where L: "acm_lookup (cd_acm cdata) (getID (getUserData o1)) (getID (getUserData o2)) = (calls, al, dcf)"
    using prod_cases3 by blast
  have nc: "filter is_collide calls = []"
    using acm_lookup_no_collide [OF L] by (auto simp: filter_empty_conv)
  have "al \<or> touch_link_allowed (getUserData o1) (getUserData o2)"
    using assms
  proof (elim disjE exE conjE)
    fix m
    assume "cd_acm cdata = Some m"
      "getAllowedCollisionType m (getID (getUserData o1)) (getID (getUserData o2)) = Some ALWAYS"
    from acm_lookup_always [OF L this] show ?thesis by simp
  qed (auto simp: touch_link_allowed_def)
  then show ?thesis
    using L nc by (cases "cd_done cdata") (auto simp: collisionCallback_def Let_def)
qed

theorem always_allowed_pair_untouched_witness:
  "cgd_type (getUserData (ex_body ROBOT_LINK ''l'' {})) = ROBOT_LINK
   \<and> cgd_type (getUserData (ex_body ROBOT_ATTACHED ''a'' {''l''})) = ROBOT_ATTACHED
   \<and> getID (getUserData (ex_body ROBOT_LINK ''l'' {}))
       \<in> touch_links (getUserData (ex_body ROBOT_ATTACHED ''a'' {''l''}))
   \<and> getAllowedCollisionType (ex_acm_conditional (\<lambda>c. (False, c))) ''a'' ''l'' = Some CONDITIONAL
   \<and> (\<exists>calls. collisionCallback (ex_collide 3) (ex_body ROBOT_ATTACHED ''a'' {''l''})
                 (ex_body ROBOT_LINK ''l'' {})
                 (ex_data (ex_req True 5 10) (Some (ex_acm_conditional (\<lambda>c. (False, c)))))
               = (calls, Inr (False, ex_data (ex_req True 5 10) (Some (ex_acm_conditional (\<lambda>c. (False, c))))))
             \<and> filter is_collide calls = [])"
  using always_allowed_pair_untouched [of "ex_data (ex_req True 5 10) (Some (ex_acm_conditional (\<lambda>c. (False, c))))"
      "ex_body ROBOT_ATTACHED ''a'' {''l''}" "ex_body ROBOT_LINK ''l'' {}" "ex_collide 3"]
  by (simp add: ex_defs)

subsection \<open>The done flag\<close>

text \<open>
  C4. A call that reaches the contact-generation branch (the run was not done, the matrix
  has no \<^verbatim>\<open>ALWAYS\<close> entry for the pair and no touch link applies) and returns has made a
  narrow-phase query, and afterwards \<^verbatim>\<open>done_\<close> is true if a collision is recorded and
  either contacts are not requested or the contact count has reached \<^verbatim>\<open>max_contacts\<close>;
  otherwise \<^verbatim>\<open>done_\<close> has the value it had before. The returned flag is \<^verbatim>\<open>done_\<close>.
\<close>

theorem done_flag_after_contact_branch:
  fixes collide :: "'g collide_fn"
  assumes "\<not> cd_done cdata"
    and "\<not> (\<exists>m. cd_acm cdata = Some m
              \<and> getAllowedCollisionType m (getID (getUserData o1)) (getID (getUserData o2)) = Some ALWAYS)"
    and "\<not> touch_link_allowed (getUserData o1) (getUserData o2)"
    and "collisionCallback collide o1 o2 cdata = (calls, Inr (r, cdata'))"
  shows "cd_done cdata' =
           (if collision (cd_res cdata')
               \<and> (\<not> req_contacts (cd_req cdata')
                  \<or> contact_count (cd_res cdata') \<ge> max_contacts (cd_req cdata'))
            then True else cd_done cdata)
         \<and> r = cd_done cdata'
         \<and> filter is_collide calls \<noteq> []"
proof -
  let ?id1 = "getID (getUserData o1)" and ?id2 = "getID (getUserData o2)"
  obtain calls0 :: "'g extcall list" and al dcf
    where L: "acm_lookup (cd_acm cdata) ?id1 ?id2 = (calls0, al, dcf)"
    using prod_cases3 by blast
  from L assms(2) have nal: "\<not> al"
    by (auto simp: acm_lookup_def split: option.splits if_splits)
  let ?want = "want_contact_count (cd_req cdata) (cd_res cdata) ?id1 ?id2"
  obtain calls1 b where B: "contact_branch collide o1 o2 dcf ?want (cd_res cdata) = (calls1, b)"
    by (cases "contact_branch collide o1 o2 dcf ?want (cd_res cdata)")
  from assms(1,3,4) L nal B obtain res' where
    D: "cdata' = termination_check (cdata\<lparr>cd_res := res'\<rparr>)" and
    r: "r = cd_done cdata'" and c: "calls = calls0 @ calls1"
    by (auto simp: collisionCallback_def Let_def split: sum.splits)
  from B have "filter is_collide calls1 \<noteq> []"
    by (auto simp: contact_branch_def Let_def split: option.splits if_splits prod.splits)
  with c have q: "filter is_collide calls \<noteq> []" by simp
  from D have "cd_done cdata' =
           (if collision (cd_res cdata')
               \<and> (\<not> req_contacts (cd_req cdata')
                  \<or> contact_count (cd_res cdata') \<ge> max_contacts (cd_req cdata'))
            then True else cd_done cdata)"
    by (auto simp: termination_check_done)
  with r q show ?thesis by simp
qed

theorem done_flag_after_contact_branch_witness:
  "\<not> cd_done (ex_data (ex_req False 5 10) None)
   \<and> cd_acm (ex_data (ex_req False 5 10) None) = None
   \<and> \<not> touch_link_allowed (getUserData (ex_body ROBOT_LINK ''a'' {})) (getUserData (ex_body ROBOT_LINK ''b'' {}))
   \<and> collisionCallback (ex_collide 3) (ex_body ROBOT_LINK ''a'' {}) (ex_body ROBOT_LINK ''b'' {})
        (ex_data (ex_req False 5 10) None)
      = ([Collide (ex_body ROBOT_LINK ''a'' {}) (ex_body ROBOT_LINK ''b'' {}) 1 False False],
         Inr (True, ex_data (ex_req False 5 10) None
            \<lparr> cd_res := \<lparr> collision = True, contact_count = 0, contacts = Map.empty \<rparr>,
              cd_done := True \<rparr>))
   \<and> collision (cd_res (ex_data (ex_req False 5 10) None
            \<lparr> cd_res := \<lparr> collision = True, contact_count = 0, contacts = Map.empty \<rparr>,
              cd_done := True \<rparr>))
   \<and> req_contacts (cd_req (ex_data (ex_req False 5 10) None)) = False
   \<and> cd_done (ex_data (ex_req False 5 10) None
            \<lparr> cd_res := \<lparr> collision = True, contact_count = 0, contacts = Map.empty \<rparr>,
              cd_done := True \<rparr>)"
proof -
  have H1: "\<not> cd_done (ex_data (ex_req False 5 10) None)" by (simp add: ex_defs)
  have H2: "\<not> (\<exists>m. cd_acm (ex_data (ex_req False 5 10) None) = Some m
              \<and> getAllowedCollisionType m (getID (getUserData (ex_body ROBOT_LINK ''a'' {})))
                   (getID (getUserData (ex_body ROBOT_LINK ''b'' {}))) = Some ALWAYS)"
    by (simp add: ex_defs)
  have H3: "\<not> touch_link_allowed (getUserData (ex_body ROBOT_LINK ''a'' {}))
                 (getUserData (ex_body ROBOT_LINK ''b'' {}))"
    by (simp add: ex_defs touch_link_allowed_def)
  from done_flag_after_contact_branch [OF H1 H2 H3 ex_callback_no_contacts] H1 H3 ex_callback_no_contacts
  show ?thesis
    by (simp add: ex_defs)
qed

subsection \<open>Conditionally allowed pairs\<close>

text \<open>
  C7. When the matrix entry of the pair is \<^verbatim>\<open>CONDITIONAL\<close> with decider \<open>p\<close>, and \<open>p\<close>
  accepts every contact the exhaustive query returns (the first \<open>n\<close> elements of a vector
  that has at least \<open>n\<close>), the call returns with the result unchanged: the collision flag
  keeps its value and no contact is stored.
\<close>

theorem conditional_all_accepted:
  fixes collide :: "'g collide_fn"
  assumes acm: "cd_acm cdata = Some m"
    and ty: "getAllowedCollisionType m (getID (getUserData o1)) (getID (getUserData o2)) = Some CONDITIONAL"
    and fn: "getAllowedCollisionFn m (getID (getUserData o1)) (getID (getUserData o2)) = Some p"
    and gen: "collide o1 o2 INT_MAX True True = (n, cs)"
    and len: "n \<le> int (length cs)"
    and acc: "\<forall>fc \<in> set (take (nat n) cs). fst (p (fcl2contact fc))"
  shows "\<exists>calls r cdata'. collisionCallback collide o1 o2 cdata = (calls, Inr (r, cdata'))
           \<and> cd_res cdata' = cd_res cdata"
proof (cases "cd_done cdata \<or> touch_link_allowed (getUserData o1) (getUserData o2)")
  case True
  then show ?thesis
    by (auto simp: collisionCallback_def Let_def split: prod.splits)
next
  case False
  let ?id1 = "getID (getUserData o1)" and ?id2 = "getID (getUserData o2)"
  have L: "acm_lookup (cd_acm cdata) ?id1 ?id2
             = ([GetAllowedCollisionType ?id1 ?id2, GetAllowedCollisionFn ?id1 ?id2 :: 'g extcall],
                False, Some p)"
    using acm ty fn by (simp add: acm_lookup_def)
  have D: "n > 0 \<Longrightarrow> decide_loop p pc cs (nat n) want res = Inr res" for pc want res
    using len acc by (intro decide_loop_all_accepted) auto
  have B: "contact_branch collide o1 o2 (Some p) want res = ([Collide o1 o2 INT_MAX True True], Inr res)"
    for want res
    using gen D by (simp add: contact_branch_def)
  show ?thesis
    using False L B by (simp add: collisionCallback_def Let_def)
qed

theorem conditional_all_accepted_witness:
  "cd_acm (ex_data (ex_req True 5 10) (Some (ex_acm_conditional (\<lambda>c. (True, c)))))
      = Some (ex_acm_conditional (\<lambda>c. (True, c)))
   \<and> getAllowedCollisionType (ex_acm_conditional (\<lambda>c. (True, c))) ''a'' ''b'' = Some CONDITIONAL
   \<and> ex_collide 3 (ex_body ROBOT_LINK ''a'' {}) (ex_body WORLD_OBJECT ''b'' {}) INT_MAX True True
      = (3, replicate 3 (ex_raw (ex_body ROBOT_LINK ''a'' {}) (ex_body WORLD_OBJECT ''b'' {})))
   \<and> (\<exists>calls r cdata'.
         collisionCallback (ex_collide 3) (ex_body ROBOT_LINK ''a'' {}) (ex_body WORLD_OBJECT ''b'' {})
           (ex_data (ex_req True 5 10) (Some (ex_acm_conditional (\<lambda>c. (True, c)))))
         = (calls, Inr (r, cdata'))
         \<and> cd_res cdata' = ex_empty_result)"
  using conditional_all_accepted [of "ex_data (ex_req True 5 10) (Some (ex_acm_conditional (\<lambda>c. (True, c))))"
      "ex_acm_conditional (\<lambda>c. (True, c))" "ex_body ROBOT_LINK ''a'' {}" "ex_body WORLD_OBJECT ''b'' {}"
      "\<lambda>c. (True, c)" "ex_collide 3" 3
      "replicate 3 (ex_raw (ex_body ROBOT_LINK ''a'' {}) (ex_body WORLD_OBJECT ''b'' {}))"]
  by (simp add: ex_defs)

subsection \<open>Contacts stored per pair\<close>

text \<open>
  C6. Over any sequence of calls on one \<^verbatim>\<open>CollisionData\<close>, repeated and swapped pairs
  included, the number of contacts stored under a key never exceeds
  \<^verbatim>\<open>max_contacts_per_pair\<close>: the bound holds after the run if it held before, as it
  does for the empty result a run starts from.
\<close>

theorem stored_per_pair_bounded:
  fixes collide :: "'g collide_fn"
  assumes "\<forall>k. have_contacts (contacts (cd_res cdata)) k \<le> max_contacts_per_pair (cd_req cdata)"
    and "run collide ps cdata = Inr cdata'"
  shows "\<forall>k. have_contacts (contacts (cd_res cdata')) k \<le> max_contacts_per_pair (cd_req cdata')"
  using assms
proof (induction ps arbitrary: cdata)
  case Nil
  then show ?case by simp
next
  case (Cons p ps)
  obtain calls b where S: "collisionCallback collide (fst p) (snd p) cdata = (calls, b)"
    by (cases "collisionCallback collide (fst p) (snd p) cdata")
  with Cons.prems(2) obtain r cdata1 where b: "b = Inr (r, cdata1)"
    and R: "run collide ps cdata1 = Inr cdata'"
    by (cases b) auto
  from callback_keeps_pair_bound [OF S [unfolded b] Cons.prems(1)]
  have "\<forall>k. have_contacts (contacts (cd_res cdata1)) k \<le> max_contacts_per_pair (cd_req cdata1)" .
  from Cons.IH [OF this R] show ?case .
qed

theorem stored_per_pair_bounded_witness:
  "(\<forall>k. have_contacts (contacts (cd_res (ex_data (ex_req True 100 3) None))) k
          \<le> max_contacts_per_pair (cd_req (ex_data (ex_req True 100 3) None)))
   \<and> run (ex_collide 2)
      [(ex_body ROBOT_LINK ''a'' {}, ex_body ROBOT_LINK ''b'' {}),
       (ex_body ROBOT_LINK ''b'' {}, ex_body ROBOT_LINK ''a'' {})]
      (ex_data (ex_req True 100 3) None)
    = Inr (ex_data (ex_req True 100 3) None
         \<lparr> cd_res := \<lparr> collision = True, contact_count = 3,
              contacts = [(''a'', ''b'') \<mapsto>
                 [fcl2contact (ex_raw (ex_body ROBOT_LINK ''a'' {}) (ex_body ROBOT_LINK ''b'' {})),
                  fcl2contact (ex_raw (ex_body ROBOT_LINK ''a'' {}) (ex_body ROBOT_LINK ''b'' {})),
                  fcl2contact (ex_raw (ex_body ROBOT_LINK ''b'' {}) (ex_body ROBOT_LINK ''a'' {}))]] \<rparr> \<rparr>)
   \<and> have_contacts
        [(''a'', ''b'') \<mapsto>
                 [fcl2contact (ex_raw (ex_body ROBOT_LINK ''a'' {}) (ex_body ROBOT_LINK ''b'' {})),
                  fcl2contact (ex_raw (ex_body ROBOT_LINK ''a'' {}) (ex_body ROBOT_LINK ''b'' {})),
                  fcl2contact (ex_raw (ex_body ROBOT_LINK ''b'' {}) (ex_body ROBOT_LINK ''a'' {}))]]
        (''a'', ''b'') \<le> 3"
proof -
  have H1: "\<forall>k. have_contacts (contacts (cd_res (ex_data (ex_req True 100 3) None))) k
          \<le> max_contacts_per_pair (cd_req (ex_data (ex_req True 100 3) None))"
    by (simp add: ex_defs have_contacts_def)
  from stored_per_pair_bounded [OF H1 ex_run_ab_ba, rule_format, of "(''a'', ''b'')"]
  have "have_contacts
        [(''a'', ''b'') \<mapsto>
                 [fcl2contact (ex_raw (ex_body ROBOT_LINK ''a'' {}) (ex_body ROBOT_LINK ''b'' {})),
                  fcl2contact (ex_raw (ex_body ROBOT_LINK ''a'' {}) (ex_body ROBOT_LINK ''b'' {})),
                  fcl2contact (ex_raw (ex_body ROBOT_LINK ''b'' {}) (ex_body ROBOT_LINK ''a'' {}))]]
        (''a'', ''b'') \<le> 3"
    by (simp add: ex_data_def ex_req_def)
  with H1 ex_run_ab_ba show ?thesis by blast
qed

subsection \<open>Keys and names of stored contacts\<close>

text \<open>
  C2, as the code has it. What a call stores goes under the key made of the smaller and
  the larger of the two bodies' names, the same key for both orders of the arguments, and
  no other key changes. The callback never reorders the names inside a contact. On a pair
  without decider it appends \<^verbatim>\<open>fcl2contact\<close> of the first raw contacts of the bounded
  query, as many as the query counted and at most \<^verbatim>\<open>want_contact_count\<close>; on a pair
  with a decider it appends the first \<^verbatim>\<open>want_contact_count\<close> rejected contacts of the
  exhaustive query, each as the decider left it. \<^verbatim>\<open>fcl2contact\<close> gives a contact the
  names of the raw contact's \<^verbatim>\<open>o1\<close> and \<^verbatim>\<open>o2\<close>, in that order. A call cut short
  by the done flag or by an always allowed pair appends nothing.
\<close>

theorem stored_contact_key_and_names:
  fixes collide :: "'g collide_fn" and o1 o2 :: "'g CollisionObject"
    and cdata :: CollisionData and calls0 :: "'g extcall list"
  defines "id1 \<equiv> getID (getUserData o1)" and "id2 \<equiv> getID (getUserData o2)"
  defines "want \<equiv> want_contact_count (cd_req cdata) (cd_res cdata) id1 id2"
  defines "exhaustive \<equiv> collide o1 o2 INT_MAX True True"
    and "bounded \<equiv> collide o1 o2 (size_t_to_int want) False True"
  assumes ret: "collisionCallback collide o1 o2 cdata = (calls, Inr (r, cdata'))"
    and lookup: "acm_lookup (cd_acm cdata) id1 id2 = (calls0, al, dcf)"
  shows "pair_key id1 id2 = (min id1 id2, max id1 id2)
       \<and> pair_key id2 id1 = pair_key id1 id2
       \<and> (\<forall>k. k \<noteq> pair_key id1 id2 \<longrightarrow> contacts (cd_res cdata') k = contacts (cd_res cdata) k)
       \<and> contacts_at (contacts (cd_res cdata')) (pair_key id1 id2)
           = contacts_at (contacts (cd_res cdata)) (pair_key id1 id2)
             @ (if cd_done cdata \<or> al \<or> touch_link_allowed (getUserData o1) (getUserData o2)
                then []
                else case dcf of
                  None \<Rightarrow>
                    map fcl2contact (take (min (nat (fst bounded)) want) (snd bounded))
                | Some f \<Rightarrow>
                    take want (map (\<lambda>fc. snd (f (fcl2contact fc)))
                      (filter (\<lambda>fc. \<not> fst (f (fcl2contact fc)))
                         (take (nat (fst exhaustive)) (snd exhaustive)))))
       \<and> (\<forall>fc :: 'g fcl_Contact.
              body_name_1 (fcl2contact fc) = getID (getUserData (fc_o1 fc))
              \<and> body_name_2 (fcl2contact fc) = getID (getUserData (fc_o2 fc)))"
proof -
  let ?pc = "pair_key id1 id2"
  let ?skip = "cd_done cdata \<or> al \<or> touch_link_allowed (getUserData o1) (getUserData o2)"
  have stored: "(\<forall>k. k \<noteq> ?pc \<longrightarrow> contacts (cd_res cdata') k = contacts (cd_res cdata) k)
       \<and> contacts_at (contacts (cd_res cdata')) ?pc
           = contacts_at (contacts (cd_res cdata)) ?pc
             @ (if ?skip then []
                else case dcf of
                  None \<Rightarrow>
                    map fcl2contact (take (min (nat (fst bounded)) want) (snd bounded))
                | Some f \<Rightarrow>
                    take want (map (\<lambda>fc. snd (f (fcl2contact fc)))
                      (filter (\<lambda>fc. \<not> fst (f (fcl2contact fc)))
                         (take (nat (fst exhaustive)) (snd exhaustive)))))"
  proof (cases ?skip)
    case True
    from callback_skips [OF ret lookup [unfolded id1_def id2_def] True] True
    show ?thesis by simp
  next
    case False
    from callback_reaches_branch [OF ret lookup [unfolded id1_def id2_def]] False
    obtain calls1 res' where
      B: "contact_branch collide o1 o2 dcf want (cd_res cdata) = (calls1, Inr res')" and
      D: "cdata' = termination_check (cdata\<lparr>cd_res := res'\<rparr>)"
      unfolding want_def id1_def id2_def by blast
    from D have R: "cd_res cdata' = res'" by simp
    show ?thesis
    proof (cases dcf)
      case None
      from contact_branch_plain [OF B [unfolded None]] False None R show ?thesis
        by (simp add: id1_def id2_def bounded_def)
    next
      case (Some f)
      from contact_branch_decider [OF B [unfolded Some]] False Some R show ?thesis
        by (simp add: id1_def id2_def exhaustive_def)
    qed
  qed
  with pair_key_min_max [of id1 id2] pair_key_commute [of id2 id1] fcl2contact_names
  show ?thesis by blast
qed

theorem stored_contact_key_and_names_witness:
  "collisionCallback (ex_collide 1) (ex_body ROBOT_LINK ''b'' {}) (ex_body ROBOT_LINK ''a'' {})
      (ex_data (ex_req True 5 10) (Some (ex_acm_conditional ex_reject_swapped)))
    = ([GetAllowedCollisionType ''b'' ''a'', GetAllowedCollisionFn ''b'' ''a'',
        Collide (ex_body ROBOT_LINK ''b'' {}) (ex_body ROBOT_LINK ''a'' {}) INT_MAX True True],
       Inr (False, ex_data (ex_req True 5 10) (Some (ex_acm_conditional ex_reject_swapped))
         \<lparr> cd_res := \<lparr> collision = True, contact_count = 1,
              contacts = [(''a'', ''b'') \<mapsto>
                [snd (ex_reject_swapped
                   (fcl2contact (ex_raw (ex_body ROBOT_LINK ''b'' {}) (ex_body ROBOT_LINK ''a'' {}))))]] \<rparr> \<rparr>))
   \<and> pair_key ''b'' ''a'' = (''a'', ''b'')
   \<and> pair_key ''a'' ''b'' = (''a'', ''b'')
   \<and> contacts_at
        [(''a'', ''b'') \<mapsto>
                [snd (ex_reject_swapped
                   (fcl2contact (ex_raw (ex_body ROBOT_LINK ''b'' {}) (ex_body ROBOT_LINK ''a'' {}))))]]
        (''a'', ''b'')
      = take 10 (map (\<lambda>fc. snd (ex_reject_swapped (fcl2contact fc)))
           (filter (\<lambda>fc. \<not> fst (ex_reject_swapped (fcl2contact fc)))
              [ex_raw (ex_body ROBOT_LINK ''b'' {}) (ex_body ROBOT_LINK ''a'' {})]))
   \<and> body_name_1 (fcl2contact (ex_raw (ex_body ROBOT_LINK ''b'' {}) (ex_body ROBOT_LINK ''a'' {}))) = ''b''
   \<and> body_name_1 (snd (ex_reject_swapped
         (fcl2contact (ex_raw (ex_body ROBOT_LINK ''b'' {}) (ex_body ROBOT_LINK ''a'' {}))))) = ''a''
   \<and> collisionCallback (ex_collide 1) (ex_body ROBOT_LINK ''b'' {}) (ex_body ROBOT_LINK ''a'' {})
      (ex_data (ex_req True 5 10) None)
    = ([Collide (ex_body ROBOT_LINK ''b'' {}) (ex_body ROBOT_LINK ''a'' {}) 10 False True],
       Inr (False, ex_data (ex_req True 5 10) None
         \<lparr> cd_res := \<lparr> collision = True, contact_count = 1,
              contacts = [(''a'', ''b'') \<mapsto>
                [fcl2contact (ex_raw (ex_body ROBOT_LINK ''b'' {}) (ex_body ROBOT_LINK ''a'' {}))]] \<rparr> \<rparr>))
   \<and> contacts_at
        [(''a'', ''b'') \<mapsto>
                [fcl2contact (ex_raw (ex_body ROBOT_LINK ''b'' {}) (ex_body ROBOT_LINK ''a'' {}))]]
        (''a'', ''b'')
      = map fcl2contact [ex_raw (ex_body ROBOT_LINK ''b'' {}) (ex_body ROBOT_LINK ''a'' {})]"
proof -
  have W: "want_contact_count (ex_req True 5 10) ex_empty_result ''b'' ''a'' = 10"
    by (simp add: want_contact_count_def have_contacts_def ex_req_def ex_empty_result_def)
  from stored_contact_key_and_names [OF ex_callback_b_a_swapped ex_lookup_b_a_swapped]
  have A: "pair_key ''b'' ''a'' = (''a'', ''b'')"
    "pair_key ''a'' ''b'' = (''a'', ''b'')"
    "contacts_at
        [(''a'', ''b'') \<mapsto>
                [snd (ex_reject_swapped
                   (fcl2contact (ex_raw (ex_body ROBOT_LINK ''b'' {}) (ex_body ROBOT_LINK ''a'' {}))))]]
        (''a'', ''b'')
      = take 10 (map (\<lambda>fc. snd (ex_reject_swapped (fcl2contact fc)))
           (filter (\<lambda>fc. \<not> fst (ex_reject_swapped (fcl2contact fc)))
              [ex_raw (ex_body ROBOT_LINK ''b'' {}) (ex_body ROBOT_LINK ''a'' {})]))"
    "body_name_1 (fcl2contact (ex_raw (ex_body ROBOT_LINK ''b'' {}) (ex_body ROBOT_LINK ''a'' {}))) = ''b''"
    using W
    by (simp_all add: ex_body_def ex_data_def ex_empty_result_def ex_collide_def contacts_at_def
        touch_link_allowed_def min_def max_def ex_raw_def ex_reject_swapped_def pair_key_def)
  from stored_contact_key_and_names [OF ex_callback_b_a ex_lookup_none]
  have B: "contacts_at
        [(''a'', ''b'') \<mapsto>
                [fcl2contact (ex_raw (ex_body ROBOT_LINK ''b'' {}) (ex_body ROBOT_LINK ''a'' {}))]]
        (''a'', ''b'')
      = map fcl2contact [ex_raw (ex_body ROBOT_LINK ''b'' {}) (ex_body ROBOT_LINK ''a'' {})]"
    by (simp add: contacts_at_def)
  have N: "body_name_1 (snd (ex_reject_swapped
         (fcl2contact (ex_raw (ex_body ROBOT_LINK ''b'' {}) (ex_body ROBOT_LINK ''a'' {}))))) = ''a''"
    by (simp add: ex_reject_swapped_def fcl2contact_def ex_raw_def ex_body_def)
  from A B N ex_callback_b_a_swapped ex_callback_b_a show ?thesis by blast
qed

text \<open>
  The names inside a stored contact need not be ordered: the pair (b, a), with a narrow
  phase that labels the contact in the order of its arguments, stores under the key (a, b)
  a contact whose \<^verbatim>\<open>body_name_1\<close> is b and whose \<^verbatim>\<open>body_name_2\<close> is a.
\<close>

theorem stored_contact_names_unordered:
  "collisionCallback (ex_collide 1) (ex_body ROBOT_LINK ''b'' {}) (ex_body ROBOT_LINK ''a'' {})
      (ex_data (ex_req True 5 10) None)
    = ([Collide (ex_body ROBOT_LINK ''b'' {}) (ex_body ROBOT_LINK ''a'' {}) 10 False True],
       Inr (False, ex_data (ex_req True 5 10) None
         \<lparr> cd_res := \<lparr> collision = True, contact_count = 1,
              contacts = [(''a'', ''b'') \<mapsto>
                [fcl2contact (ex_raw (ex_body ROBOT_LINK ''b'' {}) (ex_body ROBOT_LINK ''a'' {}))]] \<rparr> \<rparr>))
   \<and> body_name_1 (fcl2contact (ex_raw (ex_body ROBOT_LINK ''b'' {}) (ex_body ROBOT_LINK ''a'' {}))) = ''b''
   \<and> body_name_2 (fcl2contact (ex_raw (ex_body ROBOT_LINK ''b'' {}) (ex_body ROBOT_LINK ''a'' {}))) = ''a''
   \<and> \<not> body_name_1 (fcl2contact (ex_raw (ex_body ROBOT_LINK ''b'' {}) (ex_body ROBOT_LINK ''a'' {})))
        < body_name_2 (fcl2contact (ex_raw (ex_body ROBOT_LINK ''b'' {}) (ex_body ROBOT_LINK ''a'' {})))"
  using ex_callback_b_a by (simp add: fcl2contact_def ex_defs)

subsection \<open>A body paired with itself\<close>

text \<open>
  C9, as the code has it. The callback does not compare the two bodies. A call whose two
  bodies carry the same name, and which is not cut short by the done flag or by an always
  allowed pair, returns normally whenever the narrow phase's count does not exceed the
  length of its output vector, and does what it does for any other pair: it makes the one
  narrow-phase query of its branch, appends the contacts of that branch under the key
  made of the name twice and to no other key, adds their number to the contact count, and
  sets the collision flag when the query found a contact (for a decider: a rejected one).
\<close>

theorem self_pair_is_processed:
  fixes collide :: "'g collide_fn" and o1 o2 :: "'g CollisionObject"
    and cdata :: CollisionData and calls0 :: "'g extcall list" and i :: string
  defines "want \<equiv> want_contact_count (cd_req cdata) (cd_res cdata) i i"
  defines "exhaustive \<equiv> collide o1 o2 INT_MAX True True"
    and "bounded \<equiv> collide o1 o2 (size_t_to_int want) False True"
    and "overlap \<equiv> collide o1 o2 1 False False"
  assumes same: "getID (getUserData o1) = i" "getID (getUserData o2) = i"
    and lookup: "acm_lookup (cd_acm cdata) i i = (calls0, al, dcf)"
    and reach: "\<not> cd_done cdata" "\<not> al"
      "\<not> touch_link_allowed (getUserData o1) (getUserData o2)"
    and wf: "\<forall>cap ex en. fst (collide o1 o2 cap ex en) \<le> int (length (snd (collide o1 o2 cap ex en)))"
  shows "\<exists>calls r cdata'.
           collisionCallback collide o1 o2 cdata = (calls, Inr (r, cdata'))
         \<and> filter is_collide calls
             = [case dcf of
                  None \<Rightarrow> if want > 0 then Collide o1 o2 (size_t_to_int want) False True
                           else Collide o1 o2 1 False False
                | Some f \<Rightarrow> Collide o1 o2 INT_MAX True True]
         \<and> contacts_at (contacts (cd_res cdata')) (i, i)
             = contacts_at (contacts (cd_res cdata)) (i, i)
               @ (case dcf of
                    None \<Rightarrow>
                      map fcl2contact (take (min (nat (fst bounded)) want) (snd bounded))
                  | Some f \<Rightarrow>
                      take want (map (\<lambda>fc. snd (f (fcl2contact fc)))
                        (filter (\<lambda>fc. \<not> fst (f (fcl2contact fc)))
                           (take (nat (fst exhaustive)) (snd exhaustive)))))
         \<and> (\<forall>k. k \<noteq> (i, i) \<longrightarrow> contacts (cd_res cdata') k = contacts (cd_res cdata) k)
         \<and> contact_count (cd_res cdata')
             = contact_count (cd_res cdata)
               + (case dcf of
                    None \<Rightarrow> min (nat (fst bounded)) want
                  | Some f \<Rightarrow>
                      min want (length (filter (\<lambda>fc. \<not> fst (f (fcl2contact fc)))
                                   (take (nat (fst exhaustive)) (snd exhaustive)))))
         \<and> collision (cd_res cdata')
             = (collision (cd_res cdata)
                \<or> (case dcf of
                      None \<Rightarrow> if want > 0 then 0 < fst bounded else 0 < fst overlap
                    | Some f \<Rightarrow>
                        filter (\<lambda>fc. \<not> fst (f (fcl2contact fc)))
                          (take (nat (fst exhaustive)) (snd exhaustive)) \<noteq> []))"
proof -
  from callback_defined [of collide o1 o2, OF wf] obtain calls r cdata' where
    C: "collisionCallback collide o1 o2 cdata = (calls, Inr (r, cdata'))"
    by blast
  have L: "acm_lookup (cd_acm cdata) (getID (getUserData o1)) (getID (getUserData o2)) = (calls0, al, dcf)"
    using lookup same by simp
  from callback_reaches_branch [OF C L reach] obtain calls1 res' where
    B: "contact_branch collide o1 o2 dcf want (cd_res cdata) = (calls1, Inr res')" and
    cs: "calls = calls0 @ calls1" and
    D: "cdata' = termination_check (cdata\<lparr>cd_res := res'\<rparr>)"
    unfolding want_def using same by auto
  from D have R: "cd_res cdata' = res'" by simp
  have nc: "filter is_collide calls0 = []"
    using acm_lookup_no_collide [OF L] by (auto simp: filter_empty_conv)
  have K: "pair_key (getID (getUserData o1)) (getID (getUserData o2)) = (i, i)"
    using same by (simp add: pair_key_same)
  show ?thesis
  proof (cases dcf)
    case None
    from contact_branch_plain [OF B [unfolded None]] None R cs nc K C show ?thesis
      by (intro exI [of _ calls] exI [of _ r] exI [of _ cdata']) (simp add: bounded_def overlap_def)
  next
    case (Some f)
    from contact_branch_decider [OF B [unfolded Some]] Some R cs nc K C show ?thesis
      by (intro exI [of _ calls] exI [of _ r] exI [of _ cdata']) (simp add: exhaustive_def)
  qed
qed

theorem self_pair_is_processed_witness:
  "getID (getUserData (ex_body ROBOT_LINK ''a'' {})) = ''a''
   \<and> acm_lookup (cd_acm (ex_data (ex_req True 5 10) None)) ''a'' ''a''
       = ([] :: nat extcall list, False, None)
   \<and> \<not> cd_done (ex_data (ex_req True 5 10) None)
   \<and> \<not> touch_link_allowed (getUserData (ex_body ROBOT_LINK ''a'' {}))
          (getUserData (ex_body ROBOT_LINK ''a'' {}))
   \<and> (\<forall>cap ex en.
         fst (ex_collide 2 (ex_body ROBOT_LINK ''a'' {}) (ex_body ROBOT_LINK ''a'' {}) cap ex en)
         \<le> int (length (snd (ex_collide 2 (ex_body ROBOT_LINK ''a'' {}) (ex_body ROBOT_LINK ''a'' {})
                               cap ex en))))
   \<and> (\<exists>calls r cdata'.
         collisionCallback (ex_collide 2) (ex_body ROBOT_LINK ''a'' {}) (ex_body ROBOT_LINK ''a'' {})
           (ex_data (ex_req True 5 10) None) = (calls, Inr (r, cdata'))
         \<and> filter is_collide calls
             = [Collide (ex_body ROBOT_LINK ''a'' {}) (ex_body ROBOT_LINK ''a'' {}) 10 False True]
         \<and> contacts_at (contacts (cd_res cdata')) (''a'', ''a'')
             = [fcl2contact (ex_raw (ex_body ROBOT_LINK ''a'' {}) (ex_body ROBOT_LINK ''a'' {})),
                fcl2contact (ex_raw (ex_body ROBOT_LINK ''a'' {}) (ex_body ROBOT_LINK ''a'' {}))]
         \<and> contact_count (cd_res cdata') = 2
         \<and> collision (cd_res cdata'))"
proof -
  have H1: "getID (getUserData (ex_body ROBOT_LINK ''a'' {})) = ''a''"
    by (simp add: ex_body_def)
  have H2: "acm_lookup (cd_acm (ex_data (ex_req True 5 10) None)) ''a'' ''a''
       = ([] :: nat extcall list, False, None)"
    by (rule ex_lookup_none)
  have H3: "\<not> cd_done (ex_data (ex_req True 5 10) None)"
    by (simp add: ex_data_def)
  have H4: "\<not> False" by simp
  have H5: "\<not> touch_link_allowed (getUserData (ex_body ROBOT_LINK ''a'' {}))
          (getUserData (ex_body ROBOT_LINK ''a'' {}))"
    by (simp add: touch_link_allowed_def ex_body_def)
  have H6: "\<forall>cap ex en.
         fst (ex_collide 2 (ex_body ROBOT_LINK ''a'' {}) (ex_body ROBOT_LINK ''a'' {}) cap ex en)
         \<le> int (length (snd (ex_collide 2 (ex_body ROBOT_LINK ''a'' {}) (ex_body ROBOT_LINK ''a'' {})
                               cap ex en)))"
    by (simp add: ex_collide_def)
  have W: "want_contact_count (ex_req True 5 10) ex_empty_result ''a'' ''a'' = 10"
    by (simp add: want_contact_count_def have_contacts_def ex_req_def ex_empty_result_def)
  have S: "size_t_to_int 10 = 10" by (simp add: size_t_to_int_def)
  have G: "ex_collide 2 a b cap ex en = (2, [ex_raw a b, ex_raw a b])" for a b cap ex en
    by (simp add: ex_collide_def numeral_2_eq_2)
  have E: "cd_req (ex_data (ex_req True 5 10) None) = ex_req True 5 10"
    "cd_res (ex_data (ex_req True 5 10) None) = ex_empty_result"
    "contacts_at (contacts ex_empty_result) (''a'', ''a'') = []"
    "contact_count ex_empty_result = 0" "collision ex_empty_result = False"
    by (simp_all add: ex_data_def ex_empty_result_def contacts_at_def)
  from self_pair_is_processed [of "ex_body ROBOT_LINK ''a'' {}" "''a''" "ex_body ROBOT_LINK ''a'' {}"
      "ex_data (ex_req True 5 10) None" "[]" False None "ex_collide 2", OF H1 H1 H2 H3 H4 H5 H6]
  obtain calls r cdata' where
    C: "collisionCallback (ex_collide 2) (ex_body ROBOT_LINK ''a'' {}) (ex_body ROBOT_LINK ''a'' {})
           (ex_data (ex_req True 5 10) None) = (calls, Inr (r, cdata'))" and
    Q: "filter is_collide calls
             = [Collide (ex_body ROBOT_LINK ''a'' {}) (ex_body ROBOT_LINK ''a'' {}) 10 False True]" and
    A: "contacts_at (contacts (cd_res cdata')) (''a'', ''a'')
             = [fcl2contact (ex_raw (ex_body ROBOT_LINK ''a'' {}) (ex_body ROBOT_LINK ''a'' {})),
                fcl2contact (ex_raw (ex_body ROBOT_LINK ''a'' {}) (ex_body ROBOT_LINK ''a'' {}))]" and
    N: "contact_count (cd_res cdata') = 2" and
    X: "collision (cd_res cdata')"
    unfolding E W S G by auto
  with H1 H2 H3 H5 H6 show ?thesis by blast
qed

text \<open>
  A call with the same body on both sides is not rejected: it returns normally, sets the
  collision flag and stores a contact under the key (a, a).
\<close>

theorem self_pair_not_rejected:
  "getID (getUserData (ex_body ROBOT_LINK ''a'' {})) = getID (getUserData (ex_body ROBOT_LINK ''a'' {}))
   \<and> snd (collisionCallback (ex_collide 1) (ex_body ROBOT_LINK ''a'' {}) (ex_body ROBOT_LINK ''a'' {})
          (ex_data (ex_req True 5 10) None))
      = Inr (False, ex_data (ex_req True 5 10) None
         \<lparr> cd_res := \<lparr> collision = True, contact_count = 1,
              contacts = [(''a'', ''a'') \<mapsto>
                [fcl2contact (ex_raw (ex_body ROBOT_LINK ''a'' {}) (ex_body ROBOT_LINK ''a'' {}))]] \<rparr> \<rparr>)
   \<and> \<not> isl (snd (collisionCallback (ex_collide 1) (ex_body ROBOT_LINK ''a'' {})
                 (ex_body ROBOT_LINK ''a'' {}) (ex_data (ex_req True 5 10) None)))"
  unfolding ex_callback_a_a by simp

subsection \<open>The total number of contacts\<close>

text \<open>
  C1. The contact count can exceed \<^verbatim>\<open>max_contacts\<close> when the run is done. With
  \<^verbatim>\<open>max_contacts\<close> 5, \<^verbatim>\<open>max_contacts_per_pair\<close> 10 and three pairs of three
  contacts each, the first call stores three contacts, the second asks for ten more
  (line 122 looks at the room of the pair only) and stores three, and the run is done
  with six contacts.
\<close>

theorem total_contacts_exceed_max:
  "run (ex_collide 3)
      [(ex_body ROBOT_LINK ''a'' {}, ex_body ROBOT_LINK ''b'' {}),
       (ex_body ROBOT_LINK ''a'' {}, ex_body ROBOT_LINK ''c'' {}),
       (ex_body ROBOT_LINK ''b'' {}, ex_body ROBOT_LINK ''c'' {})]
      (ex_data (ex_req True 5 10) None)
    = Inr (ex_data (ex_req True 5 10) None
         \<lparr> cd_res := \<lparr> collision = True, contact_count = 6,
              contacts = [(''a'', ''b'') \<mapsto>
                            replicate 3 (fcl2contact (ex_raw (ex_body ROBOT_LINK ''a'' {}) (ex_body ROBOT_LINK ''b'' {}))),
                          (''a'', ''c'') \<mapsto>
                            replicate 3 (fcl2contact (ex_raw (ex_body ROBOT_LINK ''a'' {}) (ex_body ROBOT_LINK ''c'' {})))] \<rparr>,
            cd_done := True \<rparr>)
   \<and> max_contacts (ex_req True 5 10) = 5"
  by (simp add: callback_defs ex_defs eval_nat_numeral)

end
